theory Spec2Isabelle
  imports Main "HOL-Library.AList"
begin

section \<open>Strings\<close>

text \<open>
  Go strings are modelled as \<^typ>\<open>string\<close>, one \<^typ>\<open>char\<close> per Unicode code point
  below 256 (Latin-1). On that alphabet \<open>unicode.IsSpace\<close> holds for tab, line feed,
  vertical tab, form feed, carriage return, space, U+0085 and U+00A0, and
  \<open>unicode.ToLower\<close> adds 32 to \<open>A\<close>..\<open>Z\<close> and to U+00C0..U+00DE except U+00D7.
  The fixed Chinese message texts of the program lie outside this alphabet: errors
  and fixed screens are constructors of datatypes below, carrying the data the
  message is formatted from.
\<close>

definition isSpace :: "char \<Rightarrow> bool" where
  "isSpace c \<longleftrightarrow>
     c \<in> set [CHR 0x09, CHR 0x0A, CHR 0x0B, CHR 0x0C, CHR 0x0D, CHR 0x20, CHR 0x85, CHR 0xA0]"

definition TrimSpace :: "string \<Rightarrow> string" where
  "TrimSpace s = rev (dropWhile isSpace (rev (dropWhile isSpace s)))"

definition toLowerRune :: "char \<Rightarrow> char" where
  "toLowerRune c =
     (let n = (of_char c :: nat)
      in if (65 \<le> n \<and> n \<le> 90) \<or> (192 \<le> n \<and> n \<le> 222 \<and> n \<noteq> 215)
         then char_of (n + 32) else c)"

definition ToLower :: "string \<Rightarrow> string" where
  "ToLower s = map toLowerRune s"

section \<open>Errors\<close>

text \<open>
  One constructor per \<open>errors.New\<close> / \<open>fmt.Errorf\<close> site of the program; a wrapped
  cause (\<open>%w\<close>) is an argument. \<open>External\<close> is an error handed up by a collaborator
  (operating system, YAML and HTTP libraries, the git executable).
\<close>

datatype error =
    External string
  | HomeDirError error                      \<comment> \<open>config.Load: get user home dir\<close>
  | ReadConfigError string error            \<comment> \<open>config.Load: read config file PATH\<close>
  | UnmarshalError error                    \<comment> \<open>config.Load: unmarshal config\<close>
  | ProviderEmpty string                    \<comment> \<open>config.Load: provider is empty in PATH\<close>
  | ProviderNotFound string string          \<comment> \<open>config.Load: provider NAME not found under providers in PATH\<close>
  | ProviderKeyEmpty string string          \<comment> \<open>config.Load: api\_key for provider NAME is empty in PATH\<close>
  | APIKeyEmpty string                      \<comment> \<open>config.Load: api\_key is empty in PATH\<close>
  | ArgAPIKeyEmpty                          \<comment> \<open>NewOpenAICompatibleProvider: apiKey must not be empty\<close>
  | CfgAPIKeyEmpty                          \<comment> \<open>NewProvider: api\_key of the configuration must not be empty\<close>
  | ClientNil                               \<comment> \<open>Chat: provider not initialised, client is nil\<close>
  | PromptEmpty                             \<comment> \<open>Chat: prompt must not be empty\<close>
  | ChatCallFailed error                    \<comment> \<open>Chat: calling the OpenAI-compatible endpoint failed\<close>
  | NoChoices                               \<comment> \<open>Chat: the result has no choices\<close>
  | ContentEmpty                            \<comment> \<open>Chat: the returned content is empty\<close>
  | ProviderNil                             \<comment> \<open>loadReviewsCmd: LLM provider not initialised\<close>
  | ListFilesFailed error                   \<comment> \<open>loadReviewsCmd: listing the staged files failed\<close>
  | FileDiffFailed string error             \<comment> \<open>loadReviewsCmd: getting the diff of file FILE failed\<close>
  | FileReviewFailed string error           \<comment> \<open>loadReviewsCmd: reviewing file FILE failed\<close>
  | NotGitRepo string                       \<comment> \<open>getFileStagedDiff: not a git repository, with the output\<close>
  | GitDiffFailedOutput string              \<comment> \<open>getFileStagedDiff: git diff failed, with the output\<close>
  | GitDiffFailed error                     \<comment> \<open>getFileStagedDiff: git diff failed, with the cause\<close>
  | NoStagedDiff string                     \<comment> \<open>getFileStagedDiff: file FILE has no diff output in the index\<close>
  | ReadFileFailed error                    \<comment> \<open>config commands: reading the configuration file failed\<close>
  | ParseFileFailed error                   \<comment> \<open>config commands: parsing the configuration file failed\<close>
  | WriteFileFailed error                   \<comment> \<open>config commands: writing the configuration file failed\<close>
  | ConfigFileMissing                       \<comment> \<open>set-provider: the configuration file does not exist\<close>
  | ProvidersMissing string                 \<comment> \<open>set-provider: no multi-provider configuration found\<close>
  | ProviderAbsent string                   \<comment> \<open>set-provider: provider NAME does not exist\<close>
  | ExecNotFound                            \<comment> \<open>exec.ErrNotFound: the executable is not in PATH\<close>
  | GitNotInstalled error                   \<comment> \<open>GetChangedFiles: git is not installed or not in PATH\<close>
  | GitopsNotGitRepo string                 \<comment> \<open>GetChangedFiles: not a git repository, with the output\<close>
  | NameOnlyFailedOutput string             \<comment> \<open>GetChangedFiles: git diff --name-only failed, with the output\<close>
  | NameOnlyFailed error                    \<comment> \<open>GetChangedFiles: git diff --name-only failed, with the cause\<close>
  | NilMapPanic                             \<comment> \<open>run-time panic: assignment to entry in nil map\<close>

section \<open>Package config\<close>

record ProviderConfig =
  pAPIKey :: string
  pBaseURL :: string
  pModel :: string

text \<open>
  \<open>Providers\<close> is a Go map from provider name to profile, kept as an association
  list read with \<^const>\<open>map_of\<close>; \<open>len(cfg.Providers) > 0\<close> is non-emptiness of the list.
\<close>

record Config =
  Provider :: string
  Providers :: "(string \<times> ProviderConfig) list"
  APIKey :: string
  BaseURL :: string
  Model :: string

text \<open>
  What \<open>Load\<close> obtains from outside: the home directory, \<open>filepath.Join\<close>, and the two
  viper calls (reading the file at a path, decoding it into a \<open>Config\<close>).
\<close>

record LoadEnv =
  UserHomeDir :: "error + string"
  Join :: "string \<Rightarrow> string \<Rightarrow> string"
  ReadInConfig :: "string \<Rightarrow> error option"
  Unmarshal :: "string \<Rightarrow> error + Config"

definition Load :: "LoadEnv \<Rightarrow> error + Config" where
  "Load env =
     (case UserHomeDir env of
        Inl e \<Rightarrow> Inl (HomeDirError e)
      | Inr home \<Rightarrow>
          (let configPath = Join env home ''.review-go.yaml''
           in case ReadInConfig env configPath of
                Some e \<Rightarrow> Inl (ReadConfigError configPath e)
              | None \<Rightarrow>
                  (case Unmarshal env configPath of
                     Inl e \<Rightarrow> Inl (UnmarshalError e)
                   | Inr cfg \<Rightarrow>
                       if Providers cfg \<noteq> [] then
                         if Provider cfg = [] then Inl (ProviderEmpty configPath)
                         else
                           (case map_of (Providers cfg) (Provider cfg) of
                              None \<Rightarrow> Inl (ProviderNotFound (Provider cfg) configPath)
                            | Some providerCfg \<Rightarrow>
                                if pAPIKey providerCfg = []
                                then Inl (ProviderKeyEmpty (Provider cfg) configPath)
                                else Inr (cfg\<lparr>APIKey := pAPIKey providerCfg,
                                              BaseURL := pBaseURL providerCfg,
                                              Model := pModel providerCfg\<rparr>))
                       else if APIKey cfg = [] then Inl (APIKeyEmpty configPath)
                       else Inr cfg)))"

text \<open>A configuration file with one profile, selected as the default, used in examples.\<close>

definition exampleConfig :: Config where
  "exampleConfig =
     \<lparr>Provider = ''deepseek'',
      Providers = [(''deepseek'', \<lparr>pAPIKey = ''sk-1'', pBaseURL = [], pModel = ''m''\<rparr>)],
      APIKey = [], BaseURL = ''u'', Model = []\<rparr>"

definition exampleLoadEnv :: LoadEnv where
  "exampleLoadEnv =
     \<lparr>UserHomeDir = Inr ''/home/u'', Join = (\<lambda>a b. a @ ''/'' @ b),
      ReadInConfig = (\<lambda>_. None), Unmarshal = (\<lambda>_. Inr exampleConfig)\<rparr>"

section \<open>Package ai\<close>

definition defaultModel :: string where
  "defaultModel = ''gpt-4o-mini''"

text \<open>
  The go-openai client is a collaborator. Its configuration is what the program
  sets: the token and the endpoint; \<open>openai.DefaultConfig\<close> starts from the library's
  own endpoint.
\<close>

record ClientConfig =
  authToken :: string
  clientBaseURL :: string

definition openaiAPIURLv1 :: string where
  "openaiAPIURLv1 = ''https://api.openai.com/v1''"

definition DefaultConfig :: "string \<Rightarrow> ClientConfig" where
  "DefaultConfig apiKey = \<lparr>authToken = apiKey, clientBaseURL = openaiAPIURLv1\<rparr>"

record OpenAICompatibleProvider =
  client :: "ClientConfig option"
  model :: string

definition NewOpenAICompatibleProvider ::
    "string \<Rightarrow> string \<Rightarrow> string \<Rightarrow> error + OpenAICompatibleProvider" where
  "NewOpenAICompatibleProvider baseURL apiKey model0 =
     (let apiKey = TrimSpace apiKey
      in if apiKey = [] then Inl ArgAPIKeyEmpty
         else
           (let cfg = DefaultConfig apiKey;
                baseURL = TrimSpace baseURL;
                cfg = (if baseURL \<noteq> [] then cfg\<lparr>clientBaseURL := baseURL\<rparr> else cfg);
                model1 = TrimSpace model0;
                model2 = (if model1 = [] then defaultModel else model1)
            in Inr \<lparr>client = Some cfg, model = model2\<rparr>))"

text \<open>
  The \<open>switch providerName\<close> of \<open>NewProvider\<close> (lines 128--161): from the normalised
  name and the trimmed base URL and model to the base URL and model passed on.
\<close>

definition providerDefaults :: "string \<Rightarrow> string \<Rightarrow> string \<Rightarrow> string \<times> string" where
  "providerDefaults providerName baseURL model0 =
     (if providerName = ''deepseek'' then
        (if baseURL = [] then ''https://api.deepseek.com'' else baseURL,
         if model0 = [] then ''deepseek-coder'' else model0)
      else if providerName \<in> set [''qwen'', ''tongyi'', ''ali'', ''aliyun''] then
        (if baseURL = [] then ''https://dashscope.aliyuncs.com/compatible-mode/v1'' else baseURL,
         if model0 = [] then ''qwen-turbo'' else model0)
      else if providerName \<in> set [''openai'', ''''] then
        (baseURL, if model0 = [] then defaultModel else model0)
      else
        (baseURL, if model0 = [] then defaultModel else model0))"

text \<open>
  Lines 118--161 of \<open>NewProvider\<close>: the arguments \<open>(baseURL, apiKey, model)\<close> of its
  final call, or the error of its first check.
\<close>

definition resolveProvider :: "Config \<Rightarrow> error + (string \<times> string \<times> string)" where
  "resolveProvider cfg =
     (let apiKey = TrimSpace (APIKey cfg)
      in if apiKey = [] then Inl CfgAPIKeyEmpty
         else
           (let baseURL = TrimSpace (BaseURL cfg);
                model0 = TrimSpace (Model cfg);
                providerName = ToLower (TrimSpace (Provider cfg));
                (baseURL', model') = providerDefaults providerName baseURL model0
            in Inr (baseURL', apiKey, model')))"

definition NewProvider :: "Config \<Rightarrow> error + OpenAICompatibleProvider" where
  "NewProvider cfg =
     (case resolveProvider cfg of
        Inl e \<Rightarrow> Inl e
      | Inr (baseURL, apiKey, model0) \<Rightarrow> NewOpenAICompatibleProvider baseURL apiKey model0)"

text \<open>
  The chat-completion call is a collaborator: a function from the client and the
  request to the response or an error. A response is the list of its choices'
  messages. The request's temperature is the constant \<open>defaultTemperature\<close> and is
  left out.
\<close>

record ChatCompletionMessage =
  Role :: string
  Content :: string

record ChatCompletionRequest =
  reqModel :: string
  Messages :: "ChatCompletionMessage list"

record ChatCompletionResponse =
  Choices :: "ChatCompletionMessage list"

type_synonym Backend = "ClientConfig \<Rightarrow> ChatCompletionRequest \<Rightarrow> error + ChatCompletionResponse"

definition ChatMessageRoleUser :: string where
  "ChatMessageRoleUser = ''user''"

text \<open>The receiver is a pointer: \<open>None\<close> is the nil provider.\<close>

definition Chat :: "Backend \<Rightarrow> OpenAICompatibleProvider option \<Rightarrow> string \<Rightarrow> error + string" where
  "Chat CreateChatCompletion p prompt0 =
     (case p of
        None \<Rightarrow> Inl ClientNil
      | Some p \<Rightarrow>
          (case client p of
             None \<Rightarrow> Inl ClientNil
           | Some c \<Rightarrow>
               (let prompt = TrimSpace prompt0
                in if prompt = [] then Inl PromptEmpty
                   else
                     (let req = \<lparr>reqModel = model p,
                                 Messages = [\<lparr>Role = ChatMessageRoleUser, Content = prompt\<rparr>]\<rparr>
                      in case CreateChatCompletion c req of
                           Inl e \<Rightarrow> Inl (ChatCallFailed e)
                         | Inr resp \<Rightarrow>
                             (case Choices resp of
                                [] \<Rightarrow> Inl NoChoices
                              | choice # _ \<Rightarrow>
                                  (let content = TrimSpace (Content choice)
                                   in if content = [] then Inl ContentEmpty
                                      else Inr content))))))"

text \<open>A provider as the constructor builds it, and a response of two choices, used in examples.\<close>

definition exampleProvider :: OpenAICompatibleProvider where
  "exampleProvider = \<lparr>client = Some (DefaultConfig ''sk-1''), model = defaultModel\<rparr>"

definition exampleResponse :: ChatCompletionResponse where
  "exampleResponse =
     \<lparr>Choices = [\<lparr>Role = ''assistant'', Content = '' ''\<rparr>,
                 \<lparr>Role = ''assistant'', Content = ''LGTM''\<rparr>]\<rparr>"

text \<open>The interface \<open>LLMProvider\<close> is its one method, \<open>Chat\<close>.\<close>

type_synonym LLMProvider = "string \<Rightarrow> error + string"

section \<open>Package gitops\<close>

text \<open>
  Running git is a collaborator: from the argument list to the combined output and
  the error of \<open>CombinedOutput\<close>, if any. Collaborators are functions of their
  arguments: within one run the same call gives the same answer.
\<close>

type_synonym Git = "string list \<Rightarrow> string \<times> error option"

fun Contains :: "string \<Rightarrow> string \<Rightarrow> bool" where
  "Contains [] substr = (substr = [])"
| "Contains (c # cs) substr = (take (length substr) (c # cs) = substr \<or> Contains cs substr)"

fun Split_newline :: "string \<Rightarrow> string list" where
  "Split_newline [] = [[]]"
| "Split_newline (c # cs) =
     (if c = CHR 0x0A then [] # Split_newline cs
      else (case Split_newline cs of [] \<Rightarrow> [[c]] | l # ls \<Rightarrow> (c # l) # ls))"

text \<open>The loop of \<open>GetChangedFiles\<close> over the lines, with its \<open>seen\<close> set and \<open>files\<close> slice.\<close>

fun changedFilesLoop :: "string list \<Rightarrow> string set \<Rightarrow> string list \<Rightarrow> string list" where
  "changedFilesLoop [] seen files0 = files0"
| "changedFilesLoop (line0 # lines) seen files0 =
     (let line = TrimSpace line0
      in if line = [] then changedFilesLoop lines seen files0
         else if line \<in> seen then changedFilesLoop lines seen files0
         else changedFilesLoop lines (insert line seen) (files0 @ [line]))"

definition GetChangedFiles :: "Git \<Rightarrow> error + string list" where
  "GetChangedFiles git =
     (let (out, err0) = git [''diff'', ''--cached'', ''--name-only'', ''--'', ''*.go''];
          output = TrimSpace out
      in case err0 of
           Some e \<Rightarrow>
             if e = ExecNotFound then Inl (GitNotInstalled e)
             else if Contains output ''not a git repository'' then Inl (GitopsNotGitRepo output)
             else if output \<noteq> [] then Inl (NameOnlyFailedOutput output)
             else Inl (NameOnlyFailed e)
         | None \<Rightarrow>
             if output = [] then Inr []
             else Inr (changedFilesLoop (Split_newline output) {} []))"

section \<open>Package ui\<close>

text \<open>
  A nil slice or map is \<open>None\<close>; \<open>len\<close> of nil is 0 and reading a nil map gives the
  zero value.
\<close>

record reviewLoadedMsg =
  msg_files :: "string list option"
  msg_reviews :: "(string \<rightharpoonup> string) option"
  msg_err :: "error option"

definition len :: "'a list option \<Rightarrow> int" where
  "len xs = (case xs of None \<Rightarrow> 0 | Some l \<Rightarrow> int (length l))"

definition lookupReview :: "(string \<rightharpoonup> string) option \<Rightarrow> string \<Rightarrow> string" where
  "lookupReview r f = (case r of None \<Rightarrow> [] | Some m \<Rightarrow> (case m f of None \<Rightarrow> [] | Some t \<Rightarrow> t))"

text \<open>
  The spinner widget is a collaborator; its state is kept as the number of ticks it
  has handled.
\<close>

record Model =
  files :: "string list option"
  reviews :: "(string \<rightharpoonup> string) option"
  loading :: bool
  selected :: int
  spinner :: nat
  width :: int
  height :: int
  provider :: "LLMProvider option"
  err :: "error option"

datatype Msg =
    WindowSizeMsg int int
  | TickMsg
  | ReviewLoaded reviewLoadedMsg
  | KeyMsg string
  | OtherMsg

datatype Cmd = NoCmd | Quit | SpinnerTick

definition NewModel :: "LLMProvider option \<Rightarrow> Model" where
  "NewModel p =
     \<lparr>files = None, reviews = Some Map.empty, loading = True, selected = 0, spinner = 0,
      width = 0, height = 0, provider = p, err = None\<rparr>"

definition getFileStagedDiff :: "Git \<Rightarrow> string \<Rightarrow> error + string" where
  "getFileStagedDiff git file =
     (let (out, err0) = git [''diff'', ''--cached'', ''--unified=0'', ''--'', file];
          output = TrimSpace out
      in case err0 of
           Some e \<Rightarrow>
             if Contains output ''not a git repository'' then Inl (NotGitRepo output)
             else if output \<noteq> [] then Inl (GitDiffFailedOutput output)
             else Inl (GitDiffFailed e)
         | None \<Rightarrow>
             if output = [] then Inl (NoStagedDiff file)
             else Inr output)"

text \<open>
  The prompt texts are fixed Chinese literals; English renderings stand for them.
  The system prompt begins and the user prompt ends with a non-space character.
\<close>

definition emptyDiffPrompt :: string where
  "emptyDiffPrompt = ''The staged diff is empty, nothing to review.''"

definition systemPrompt :: string where
  "systemPrompt = ''You are a senior Golang expert acting as a code review assistant.''"

definition userPromptPrefix :: string where
  "userPromptPrefix = ''Please review the following Git diff and return a Markdown report:''"

definition buildReviewPrompt :: "string \<Rightarrow> string" where
  "buildReviewPrompt diff0 =
     (let diff = TrimSpace diff0
      in if diff = [] then emptyDiffPrompt
         else
           (let userPrompt =
                  userPromptPrefix @ [CHR 0x0A, CHR 0x0A] @ ''```diff'' @ [CHR 0x0A] @ diff
                    @ [CHR 0x0A] @ ''```''
            in systemPrompt @ [CHR 0x0A, CHR 0x0A] @ userPrompt))"

text \<open>The \<open>for _, f := range files\<close> loop of \<open>loadReviewsCmd\<close>, with the map built so far.\<close>

fun reviewLoop ::
    "Git \<Rightarrow> LLMProvider \<Rightarrow> string list \<Rightarrow> string list \<Rightarrow> (string \<rightharpoonup> string) \<Rightarrow> reviewLoadedMsg" where
  "reviewLoop git chat all_files [] revs =
     \<lparr>msg_files = Some all_files, msg_reviews = Some revs, msg_err = None\<rparr>"
| "reviewLoop git chat all_files (f # fs) revs =
     (case getFileStagedDiff git f of
        Inl e \<Rightarrow> \<lparr>msg_files = None, msg_reviews = None, msg_err = Some (FileDiffFailed f e)\<rparr>
      | Inr diff \<Rightarrow>
          (let reviewPrompt = buildReviewPrompt diff
           in case chat reviewPrompt of
                Inl e \<Rightarrow>
                  \<lparr>msg_files = None, msg_reviews = None, msg_err = Some (FileReviewFailed f e)\<rparr>
              | Inr reply \<Rightarrow> reviewLoop git chat all_files fs (revs(f \<mapsto> reply))))"

definition loadReviewsCmd :: "Git \<Rightarrow> LLMProvider option \<Rightarrow> reviewLoadedMsg" where
  "loadReviewsCmd git p =
     (case p of
        None \<Rightarrow> \<lparr>msg_files = None, msg_reviews = None, msg_err = Some ProviderNil\<rparr>
      | Some chat \<Rightarrow>
          (case GetChangedFiles git of
             Inl e \<Rightarrow> \<lparr>msg_files = None, msg_reviews = None, msg_err = Some (ListFilesFailed e)\<rparr>
           | Inr fs \<Rightarrow>
               if length fs = 0
               then \<lparr>msg_files = Some [], msg_reviews = Some Map.empty, msg_err = None\<rparr>
               else reviewLoop git chat fs fs Map.empty))"

definition spinner_Update :: "nat \<Rightarrow> nat \<times> Cmd" where
  "spinner_Update s = (Suc s, SpinnerTick)"

fun Update :: "Model \<Rightarrow> Msg \<Rightarrow> Model \<times> Cmd" where
  "Update m (WindowSizeMsg w h) = (m\<lparr>width := w, height := h\<rparr>, NoCmd)"
| "Update m TickMsg =
     (if loading m
      then (let (s, cmd) = spinner_Update (spinner m) in (m\<lparr>spinner := s\<rparr>, cmd))
      else (m, NoCmd))"
| "Update m (ReviewLoaded msg) =
     (let m1 = m\<lparr>loading := False, err := msg_err msg\<rparr>
      in if msg_err msg = None then
           (let m2 = m1\<lparr>files := msg_files msg, reviews := msg_reviews msg\<rparr>
            in if len (files m2) > 0 \<and> selected m2 \<ge> len (files m2)
               then (m2\<lparr>selected := 0\<rparr>, NoCmd)
               else (m2, NoCmd))
         else (m1, NoCmd))"
| "Update m (KeyMsg key) =
     (if key \<in> set [''q'', ''ctrl+c''] then (m, Quit)
      else if loading m \<or> err m \<noteq> None then (m, NoCmd)
      else if key \<in> set [''up'', ''k''] then
        (if selected m > 0 then (m\<lparr>selected := selected m - 1\<rparr>, NoCmd) else (m, NoCmd))
      else if key \<in> set [''down'', ''j''] then
        (if selected m < len (files m) - 1 then (m\<lparr>selected := selected m + 1\<rparr>, NoCmd)
         else (m, NoCmd))
      else (m, NoCmd))"
| "Update m OtherMsg = (m, NoCmd)"

text \<open>
  What the views put on the screen, before styling: the fixed texts are
  constructors, and the right column is the markdown handed to the renderer.
\<close>

datatype ReviewMD = ReviewText string | NoReviewPlaceholder | NotSelectedPlaceholder

datatype Content =
    LoadingContent nat
  | ErrorContent error
  | NoChangesContent
  | TwoColumns int "(bool \<times> string) list" int ReviewMD

datatype Screen = Plain Content | Centered int int Content

definition centerInTerminal :: "Content \<Rightarrow> int \<Rightarrow> int \<Rightarrow> Screen" where
  "centerInTerminal content w h = (if w \<le> 0 \<or> h \<le> 0 then Plain content else Centered w h content)"

definition viewLoading :: "Model \<Rightarrow> Screen" where
  "viewLoading m = centerInTerminal (LoadingContent (spinner m)) (width m) (height m)"

text \<open>\<open>viewError\<close> shows \<open>m.err\<close>, which \<open>View\<close> has found to be present.\<close>

definition viewError :: "Model \<Rightarrow> error \<Rightarrow> Screen" where
  "viewError m e = centerInTerminal (ErrorContent e) (width m) (height m)"

definition fileLines :: "string list \<Rightarrow> int \<Rightarrow> (bool \<times> string) list" where
  "fileLines fs sel = map (\<lambda>(i, f). (int i = sel, f)) (enumerate 0 fs)"

definition selectedReviewMD :: "Model \<Rightarrow> ReviewMD" where
  "selectedReviewMD m =
     (if selected m \<ge> 0 \<and> selected m < len (files m) then
        (let file = (case files m of None \<Rightarrow> [] | Some fs \<Rightarrow> fs ! nat (selected m));
             reviewMD = lookupReview (reviews m) file
         in if TrimSpace reviewMD = [] then NoReviewPlaceholder else ReviewText reviewMD)
      else NotSelectedPlaceholder)"

definition viewContent :: "Model \<Rightarrow> Screen" where
  "viewContent m =
     (if len (files m) = 0 then centerInTerminal NoChangesContent (width m) (height m)
      else
        (let totalWidth = (if width m \<le> 0 then 100 else width m);
             leftWidth0 = totalWidth div 4;
             leftWidth = (if leftWidth0 < 20 then 20 else leftWidth0);
             rightWidth0 = totalWidth - leftWidth - 4;
             rightWidth = (if rightWidth0 < 20 then 20 else rightWidth0)
         in Plain (TwoColumns leftWidth
                     (fileLines (case files m of None \<Rightarrow> [] | Some fs \<Rightarrow> fs) (selected m))
                     rightWidth (selectedReviewMD m))))"

definition View :: "Model \<Rightarrow> Screen" where
  "View m = (if loading m then viewLoading m
             else (case err m of Some e \<Rightarrow> viewError m e | None \<Rightarrow> viewContent m))"

text \<open>The session from its start through a sequence of messages.\<close>

definition run :: "Model \<Rightarrow> Msg list \<Rightarrow> Model" where
  "run m msgs = foldl (\<lambda>m msg. fst (Update m msg)) m msgs"

text \<open>
  A git that lists \<open>a.go\<close> and \<open>b.go\<close> as staged, has a diff for \<open>a.go\<close> and none for
  \<open>b.go\<close>, used in examples.
\<close>

definition exampleGit :: Git where
  "exampleGit args =
     (if args = [''diff'', ''--cached'', ''--name-only'', ''--'', ''*.go'']
      then (''a.go'' @ [CHR 0x0A] @ ''b.go'' @ [CHR 0x0A], None)
      else if args = [''diff'', ''--cached'', ''--unified=0'', ''--'', ''a.go'']
      then (''+x := 1'', None)
      else ([], None))"

text \<open>The same listing with a diff for every file.\<close>

definition exampleGitAll :: Git where
  "exampleGitAll args =
     (if args = [''diff'', ''--cached'', ''--name-only'', ''--'', ''*.go'']
      then (''a.go'' @ [CHR 0x0A] @ ''b.go'' @ [CHR 0x0A], None)
      else (''+x := 1'', None))"

section \<open>Package cmd: the config commands\<close>

text \<open>
  The configuration document is decoded into \<open>map[string]interface{}\<close>: an untyped
  tree. A Go map is kept as an association list, read with \<^const>\<open>map_of\<close> and
  written with \<^const>\<open>AList.update\<close>.
\<close>

datatype yaml =
    YNull
  | YStr string
  | YInt int
  | YBool bool
  | YSeq "yaml list"
  | YMap "(string \<times> yaml) list"

type_synonym ymap = "(string \<times> yaml) list"

text \<open>\<open>m[k]\<close>: a missing key reads as nil, as a key bound to null does.\<close>

definition index :: "ymap \<Rightarrow> string \<Rightarrow> yaml" where
  "index m k = (case map_of m k of None \<Rightarrow> YNull | Some v \<Rightarrow> v)"

text \<open>The type assertion \<open>v.(map[string]interface{})\<close>.\<close>

definition asMap :: "yaml \<Rightarrow> ymap option" where
  "asMap v = (case v of YMap m \<Rightarrow> Some m | _ \<Rightarrow> None)"

text \<open>
  The file at the fixed path, as the commands see it: absent (\<open>os.Stat\<close> fails),
  unreadable, unparsable, or decoded. Decoding an empty document leaves the target
  map nil: \<open>Document None\<close>.
\<close>

datatype ConfigFile =
    NoFile
  | Unreadable error
  | Unparsable error
  | Document "ymap option"

text \<open>
  What a command does: the error it returns, if any, and the document it hands to
  \<open>os.WriteFile\<close> (after \<open>yaml.Marshal\<close>), if it gets that far. Writing is a
  collaborator that may fail. The lines printed to the terminal are left out.
\<close>

record Outcome =
  result :: "error option"
  written :: "ymap option"

definition failWith :: "error \<Rightarrow> Outcome" where
  "failWith e = \<lparr>result = Some e, written = None\<rparr>"

definition writeConfig :: "(ymap \<Rightarrow> error option) \<Rightarrow> ymap \<Rightarrow> Outcome" where
  "writeConfig WriteFile config =
     \<lparr>result = (case WriteFile config of None \<Rightarrow> None | Some e \<Rightarrow> Some (WriteFileFailed e)),
      written = Some config\<rparr>"

text \<open>The \<open>switch provider\<close> of set-key (lines 80--96), on the entry of the provider.\<close>

definition setKeyDefaults :: "string \<Rightarrow> ymap \<Rightarrow> ymap" where
  "setKeyDefaults provider0 providerConfig =
     (if provider0 = ''deepseek'' then
        (let pc = AList.update ''base_url'' (YStr ''https://api.deepseek.com'') providerConfig
         in if index pc ''model'' = YNull then AList.update ''model'' (YStr ''deepseek-coder'') pc
            else pc)
      else if provider0 \<in> set [''qwen'', ''tongyi'', ''ali'', ''aliyun''] then
        (let pc = AList.update ''base_url''
                    (YStr ''https://dashscope.aliyuncs.com/compatible-mode/v1'') providerConfig
         in if index pc ''model'' = YNull then AList.update ''model'' (YStr ''qwen-turbo'') pc
            else pc)
      else if provider0 = ''openai'' then
        (if index providerConfig ''model'' = YNull
         then AList.update ''model'' (YStr ''gpt-4o-mini'') providerConfig
         else providerConfig)
      else providerConfig)"

text \<open>
  The body of set-key from line 54 on, on the decoded map. The nested maps are
  shared by reference in the source, so every assignment below is visible in
  \<open>config\<close>; here the changed entry is put back.
\<close>

definition setKeyBody :: "(ymap \<Rightarrow> error option) \<Rightarrow> string \<Rightarrow> string \<Rightarrow> ymap option \<Rightarrow> Outcome" where
  "setKeyBody WriteFile apiKey provider0 config0 =
     (case config0 of
        None \<Rightarrow> failWith NilMapPanic
      | Some config \<Rightarrow>
          if provider0 \<noteq> [] then
            (let config1 = (if index config ''providers'' = YNull
                            then AList.update ''providers'' (YMap []) config else config);
                 (providers, config2) =
                    (case asMap (index config1 ''providers'') of
                       Some ps \<Rightarrow> (ps, config1)
                     | None \<Rightarrow> ([], AList.update ''providers'' (YMap []) config1));
                 providerConfig =
                    (case asMap (index providers provider0) of
                       Some existing \<Rightarrow> existing
                     | None \<Rightarrow> []);
                 providerConfig1 = AList.update ''api_key'' (YStr apiKey) providerConfig;
                 providerConfig2 =
                    (if index providerConfig1 ''base_url'' = YNull
                     then setKeyDefaults provider0 providerConfig1 else providerConfig1);
                 providers1 = AList.update provider0 (YMap providerConfig2) providers;
                 config3 = AList.update ''providers'' (YMap providers1) config2;
                 config4 =
                    (if index config3 ''provider'' = YNull \<or> index config3 ''provider'' = YStr []
                     then AList.update ''provider'' (YStr provider0) config3 else config3)
             in writeConfig WriteFile config4)
          else writeConfig WriteFile (AList.update ''api_key'' (YStr apiKey) config))"

definition setKeyCmd :: "(ymap \<Rightarrow> error option) \<Rightarrow> string \<Rightarrow> string \<Rightarrow> ConfigFile \<Rightarrow> Outcome" where
  "setKeyCmd WriteFile apiKey provider0 file =
     (case file of
        NoFile \<Rightarrow> setKeyBody WriteFile apiKey provider0 (Some [])
      | Unreadable e \<Rightarrow> failWith (ReadFileFailed e)
      | Unparsable e \<Rightarrow> failWith (ParseFileFailed e)
      | Document config \<Rightarrow> setKeyBody WriteFile apiKey provider0 config)"

definition setProviderCmd :: "(ymap \<Rightarrow> error option) \<Rightarrow> string \<Rightarrow> ConfigFile \<Rightarrow> Outcome" where
  "setProviderCmd WriteFile provider0 file =
     (case file of
        NoFile \<Rightarrow> failWith ConfigFileMissing
      | Unreadable e \<Rightarrow> failWith (ReadFileFailed e)
      | Unparsable e \<Rightarrow> failWith (ParseFileFailed e)
      | Document config0 \<Rightarrow>
          (case config0 of
             None \<Rightarrow> failWith (ProvidersMissing provider0)
           | Some config \<Rightarrow>
               (case asMap (index config ''providers'') of
                  None \<Rightarrow> failWith (ProvidersMissing provider0)
                | Some providers \<Rightarrow>
                    if map_of providers provider0 = None then failWith (ProviderAbsent provider0)
                    else writeConfig WriteFile (AList.update ''provider'' (YStr provider0) config))))"

text \<open>A document with two profiles and \<open>deepseek\<close> as the default, used in examples.\<close>

definition exampleDocument :: ymap where
  "exampleDocument =
     [(''provider'', YStr ''deepseek''),
      (''providers'', YMap [(''deepseek'', YMap [(''api_key'', YStr ''sk-1'')]),
                           (''qwen'', YMap [(''api_key'', YStr ''sk-2'')])]),
      (''api_key'', YStr ''sk-0'')]"

section \<open>Configuration loading\<close>

lemma Load_parsed:
  assumes "UserHomeDir env = Inr home"
    and "ReadInConfig env (Join env home ''.review-go.yaml'') = None"
    and "Unmarshal env (Join env home ''.review-go.yaml'') = Inr cfg"
  shows "Load env =
     (let configPath = Join env home ''.review-go.yaml''
      in if Providers cfg \<noteq> [] then
           if Provider cfg = [] then Inl (ProviderEmpty configPath)
           else
             (case map_of (Providers cfg) (Provider cfg) of
                None \<Rightarrow> Inl (ProviderNotFound (Provider cfg) configPath)
              | Some providerCfg \<Rightarrow>
                  if pAPIKey providerCfg = []
                  then Inl (ProviderKeyEmpty (Provider cfg) configPath)
                  else Inr (cfg\<lparr>APIKey := pAPIKey providerCfg,
                                BaseURL := pBaseURL providerCfg,
                                Model := pModel providerCfg\<rparr>))
         else if APIKey cfg = [] then Inl (APIKeyEmpty configPath)
         else Inr cfg)"
  using assms by (simp add: Load_def Let_def)

text \<open>
  C1. Once the file is read and parsed into \<open>cfg\<close>, loading fails exactly when the
  providers map is non-empty and the default-provider name is empty, or is no key of
  the map, or names a profile whose API key is empty; or the providers map is empty
  and the flat API key is empty. A successful load with a non-empty providers map
  returns the parsed configuration with its flat APIKey, BaseURL and Model equal to
  the fields of the selected profile.
\<close>

theorem Load_fails_iff:
  assumes "UserHomeDir env = Inr home"
    and "ReadInConfig env (Join env home ''.review-go.yaml'') = None"
    and "Unmarshal env (Join env home ''.review-go.yaml'') = Inr cfg"
  shows "(isl (Load env) \<longleftrightarrow>
            (Providers cfg \<noteq> [] \<and>
               (Provider cfg = [] \<or>
                map_of (Providers cfg) (Provider cfg) = None \<or>
                (\<exists>p. map_of (Providers cfg) (Provider cfg) = Some p \<and> pAPIKey p = []))) \<or>
            (Providers cfg = [] \<and> APIKey cfg = []))
       \<and> (\<forall>c. Load env = Inr c \<and> Providers cfg \<noteq> [] \<longrightarrow>
            (\<exists>p. map_of (Providers cfg) (Provider cfg) = Some p \<and>
                 c = cfg\<lparr>APIKey := pAPIKey p, BaseURL := pBaseURL p, Model := pModel p\<rparr> \<and>
                 APIKey c = pAPIKey p \<and> BaseURL c = pBaseURL p \<and> Model c = pModel p))"
  unfolding Load_parsed [OF assms]
  by (auto simp: Let_def split: option.splits)

theorem Load_fails_iff_witness:
  "UserHomeDir exampleLoadEnv = Inr ''/home/u''
   \<and> ReadInConfig exampleLoadEnv (Join exampleLoadEnv ''/home/u'' ''.review-go.yaml'') = None
   \<and> Unmarshal exampleLoadEnv (Join exampleLoadEnv ''/home/u'' ''.review-go.yaml'') = Inr exampleConfig
   \<and> \<not> isl (Load exampleLoadEnv)
   \<and> Load exampleLoadEnv = Inr (exampleConfig\<lparr>APIKey := ''sk-1'', BaseURL := [], Model := ''m''\<rparr>)"
proof -
  have h1: "UserHomeDir exampleLoadEnv = Inr ''/home/u''"
    by (simp add: exampleLoadEnv_def)
  have h2: "ReadInConfig exampleLoadEnv (Join exampleLoadEnv ''/home/u'' ''.review-go.yaml'') = None"
    by (simp add: exampleLoadEnv_def)
  have h3: "Unmarshal exampleLoadEnv (Join exampleLoadEnv ''/home/u'' ''.review-go.yaml'') = Inr exampleConfig"
    by (simp add: exampleLoadEnv_def)
  have ok: "\<not> isl (Load exampleLoadEnv)"
    using Load_fails_iff [OF h1 h2 h3] by (simp add: exampleConfig_def)
  then obtain c where c: "Load exampleLoadEnv = Inr c"
    by (cases "Load exampleLoadEnv") auto
  have "c = exampleConfig\<lparr>APIKey := ''sk-1'', BaseURL := [], Model := ''m''\<rparr>"
    using Load_fails_iff [OF h1 h2 h3] c by (simp add: exampleConfig_def)
  with c h1 h2 h3 ok show ?thesis by simp
qed

section \<open>Provider resolution\<close>

lemma dropWhile_rev_hd:
  assumes "dropWhile P (rev t) \<noteq> []" "t \<noteq> []" 
  shows "hd (rev (dropWhile P (rev t))) = hd t"
proof -
  obtain ys where ys: "rev t = takeWhile P (rev t) @ dropWhile P (rev t)" by simp
  have "t = rev (dropWhile P (rev t)) @ rev (takeWhile P (rev t))"
    by (metis rev_append rev_rev_ident takeWhile_dropWhile_id)
  then show ?thesis using assms
    by (metis hd_append2 rev_is_Nil_conv)
qed

lemma TrimSpace_no_leading: "dropWhile isSpace (TrimSpace s) = TrimSpace s"
proof (cases "TrimSpace s = []")
  case True then show ?thesis by simp
next
  case False
  let ?t = "dropWhile isSpace s"
  from False have ne: "dropWhile isSpace (rev ?t) \<noteq> []" by (simp add: TrimSpace_def)
  then have t: "?t \<noteq> []" by (cases "?t") simp_all
  have "hd (TrimSpace s) = hd ?t" unfolding TrimSpace_def using dropWhile_rev_hd[OF ne t] .
  moreover have "\<not> isSpace (hd ?t)" using t by (rule hd_dropWhile)
  ultimately have "\<not> isSpace (hd (TrimSpace s))" by simp
  with False show ?thesis by (cases "TrimSpace s") auto
qed

lemma TrimSpace_idem: "TrimSpace (TrimSpace s) = TrimSpace s"
proof -
  have "TrimSpace (TrimSpace s) = rev (dropWhile isSpace (rev (TrimSpace s)))"
    by (simp add: TrimSpace_def[of "TrimSpace s"] TrimSpace_no_leading)
  also have "\<dots> = TrimSpace s" by (simp add: TrimSpace_def)
  finally show ?thesis .
qed

lemma TrimSpace_Nil: "TrimSpace [] = []" by (simp add: TrimSpace_def)

lemma default_literals_trimmed:
  "TrimSpace ''https://api.deepseek.com'' = ''https://api.deepseek.com''"
  "TrimSpace ''deepseek-coder'' = ''deepseek-coder''"
  "TrimSpace ''https://dashscope.aliyuncs.com/compatible-mode/v1'' = ''https://dashscope.aliyuncs.com/compatible-mode/v1''"
  "TrimSpace ''qwen-turbo'' = ''qwen-turbo''"
  "TrimSpace defaultModel = defaultModel"
  by (simp_all add: TrimSpace_def isSpace_def defaultModel_def)

lemma providerDefaults_trimmed:
  assumes "TrimSpace b = b" "TrimSpace m = m"
  shows "TrimSpace (fst (providerDefaults n b m)) = fst (providerDefaults n b m)"
    and "TrimSpace (snd (providerDefaults n b m)) = snd (providerDefaults n b m)"
    and "snd (providerDefaults n b m) \<noteq> []"
  using assms default_literals_trimmed(5)
  by (auto simp: providerDefaults_def default_literals_trimmed(1-4))
     (simp_all add: defaultModel_def)

lemma NewOpenAICompatibleProvider_trimmed:
  assumes "TrimSpace k = k" "k \<noteq> []" "TrimSpace b = b" "TrimSpace m = m" "m \<noteq> []"
  shows "NewOpenAICompatibleProvider b k m =
     Inr \<lparr>client = Some \<lparr>authToken = k, clientBaseURL = (if b = [] then openaiAPIURLv1 else b)\<rparr>,
          model = m\<rparr>"
  using assms by (simp add: NewOpenAICompatibleProvider_def DefaultConfig_def Let_def)


lemma resolveProvider_eq:
  assumes "TrimSpace (APIKey cfg) \<noteq> []"
  shows "resolveProvider cfg =
     Inr (fst (providerDefaults (ToLower (TrimSpace (Provider cfg)))
                 (TrimSpace (BaseURL cfg)) (TrimSpace (Model cfg))),
          TrimSpace (APIKey cfg),
          snd (providerDefaults (ToLower (TrimSpace (Provider cfg)))
                 (TrimSpace (BaseURL cfg)) (TrimSpace (Model cfg))))"
  using assms by (simp add: resolveProvider_def Let_def split: prod.splits)

lemma resolveProvider_fails: "TrimSpace (APIKey cfg) = [] \<Longrightarrow> resolveProvider cfg = Inl CfgAPIKeyEmpty"
  by (simp add: resolveProvider_def)

lemma NewProvider_eq:
  assumes "TrimSpace (APIKey cfg) \<noteq> []"
    and "resolveProvider cfg = Inr (b, k, m)"
  shows "NewProvider cfg =
     Inr \<lparr>client = Some \<lparr>authToken = k, clientBaseURL = (if b = [] then openaiAPIURLv1 else b)\<rparr>,
          model = m\<rparr>"
proof -
  from assms resolveProvider_eq [OF assms(1)]
  have b: "b = fst (providerDefaults (ToLower (TrimSpace (Provider cfg)))
                 (TrimSpace (BaseURL cfg)) (TrimSpace (Model cfg)))"
    and k: "k = TrimSpace (APIKey cfg)"
    and m: "m = snd (providerDefaults (ToLower (TrimSpace (Provider cfg)))
                 (TrimSpace (BaseURL cfg)) (TrimSpace (Model cfg)))"
    by simp_all
  have "TrimSpace b = b" "TrimSpace m = m" "m \<noteq> []"
    unfolding b m by (rule providerDefaults_trimmed; simp add: TrimSpace_idem)+
  moreover have "TrimSpace k = k" "k \<noteq> []" using assms(1) k by (simp_all add: TrimSpace_idem)
  ultimately have "NewOpenAICompatibleProvider b k m =
     Inr \<lparr>client = Some \<lparr>authToken = k, clientBaseURL = (if b = [] then openaiAPIURLv1 else b)\<rparr>,
          model = m\<rparr>"
    by (intro NewOpenAICompatibleProvider_trimmed)
  then show ?thesis using assms(2) by (simp add: NewProvider_def)
qed

text \<open>
  C2. \<open>NewProvider\<close> fails exactly when the trimmed API key is empty. Otherwise it
  matches the trimmed provider name case-insensitively and fills only unset (blank)
  fields: for \<open>deepseek\<close> and for \<open>qwen\<close>, \<open>tongyi\<close>, \<open>ali\<close>, \<open>aliyun\<close> an unset base URL
  and an unset model become that provider's defaults; for \<open>openai\<close>, the empty name
  and every unrecognised name the base URL is passed on as configured (an unset one
  stays empty) and an unset model becomes the global default. A base URL or model
  that is set is never replaced. Configured values are read with their surrounding
  whitespace trimmed, as the key and the name are.
\<close>

theorem NewProvider_resolution:
  "(isl (NewProvider cfg) \<longleftrightarrow> TrimSpace (APIKey cfg) = []) \<and>
   (TrimSpace (APIKey cfg) \<noteq> [] \<longrightarrow>
      (\<exists>baseURL model'.
         resolveProvider cfg = Inr (baseURL, TrimSpace (APIKey cfg), model') \<and>
         NewProvider cfg =
           Inr \<lparr>client = Some \<lparr>authToken = TrimSpace (APIKey cfg),
                               clientBaseURL = (if baseURL = [] then openaiAPIURLv1 else baseURL)\<rparr>,
                model = model'\<rparr> \<and>
         (let name = ToLower (TrimSpace (Provider cfg));
              b = TrimSpace (BaseURL cfg);
              m = TrimSpace (Model cfg)
          in (name = ''deepseek'' \<longrightarrow>
                baseURL = (if b = [] then ''https://api.deepseek.com'' else b) \<and>
                model' = (if m = [] then ''deepseek-coder'' else m)) \<and>
             (name \<in> {''qwen'', ''tongyi'', ''ali'', ''aliyun''} \<longrightarrow>
                baseURL = (if b = [] then ''https://dashscope.aliyuncs.com/compatible-mode/v1'' else b) \<and>
                model' = (if m = [] then ''qwen-turbo'' else m)) \<and>
             (name \<in> {''openai'', ''''} \<longrightarrow>
                baseURL = b \<and> model' = (if m = [] then defaultModel else m)) \<and>
             (name \<notin> {''deepseek'', ''qwen'', ''tongyi'', ''ali'', ''aliyun'', ''openai'', ''''} \<longrightarrow>
                baseURL = b \<and> model' = (if m = [] then defaultModel else m)) \<and>
             (b \<noteq> [] \<longrightarrow> baseURL = b) \<and>
             (m \<noteq> [] \<longrightarrow> model' = m))))"
proof (cases "TrimSpace (APIKey cfg) = []")
  case True
  then show ?thesis by (simp add: NewProvider_def resolveProvider_fails)
next
  case False
  let ?pd = "providerDefaults (ToLower (TrimSpace (Provider cfg)))
                 (TrimSpace (BaseURL cfg)) (TrimSpace (Model cfg))"
  have r: "resolveProvider cfg = Inr (fst ?pd, TrimSpace (APIKey cfg), snd ?pd)"
    by (rule resolveProvider_eq [OF False])
  have n: "NewProvider cfg =
     Inr \<lparr>client = Some \<lparr>authToken = TrimSpace (APIKey cfg),
                         clientBaseURL = (if fst ?pd = [] then openaiAPIURLv1 else fst ?pd)\<rparr>,
          model = snd ?pd\<rparr>"
    by (rule NewProvider_eq [OF False r])
  have cases: "(let name = ToLower (TrimSpace (Provider cfg));
              b = TrimSpace (BaseURL cfg);
              m = TrimSpace (Model cfg)
          in (name = ''deepseek'' \<longrightarrow>
                fst ?pd = (if b = [] then ''https://api.deepseek.com'' else b) \<and>
                snd ?pd = (if m = [] then ''deepseek-coder'' else m)) \<and>
             (name \<in> {''qwen'', ''tongyi'', ''ali'', ''aliyun''} \<longrightarrow>
                fst ?pd = (if b = [] then ''https://dashscope.aliyuncs.com/compatible-mode/v1'' else b) \<and>
                snd ?pd = (if m = [] then ''qwen-turbo'' else m)) \<and>
             (name \<in> {''openai'', ''''} \<longrightarrow>
                fst ?pd = b \<and> snd ?pd = (if m = [] then defaultModel else m)) \<and>
             (name \<notin> {''deepseek'', ''qwen'', ''tongyi'', ''ali'', ''aliyun'', ''openai'', ''''} \<longrightarrow>
                fst ?pd = b \<and> snd ?pd = (if m = [] then defaultModel else m)) \<and>
             (b \<noteq> [] \<longrightarrow> fst ?pd = b) \<and>
             (m \<noteq> [] \<longrightarrow> snd ?pd = m))"
    by (simp add: providerDefaults_def Let_def)
  from False r n cases show ?thesis
    by (intro conjI impI exI [of _ "fst ?pd"] exI [of _ "snd ?pd"]) simp_all
qed

lemma example_name_normalised: "ToLower (TrimSpace '' DeepSeek '') = ''deepseek''"
  by code_simp

theorem NewProvider_resolution_witness:
  "TrimSpace (APIKey \<lparr>Provider = '' DeepSeek '', Providers = [], APIKey = '' sk-1 '',
                      BaseURL = '' '', Model = ''my-model''\<rparr>) \<noteq> [] \<and>
   NewProvider \<lparr>Provider = '' DeepSeek '', Providers = [], APIKey = '' sk-1 '',
                BaseURL = '' '', Model = ''my-model''\<rparr> =
     Inr \<lparr>client = Some \<lparr>authToken = ''sk-1'', clientBaseURL = ''https://api.deepseek.com''\<rparr>,
          model = ''my-model''\<rparr>"
proof -
  let ?cfg = "\<lparr>Provider = '' DeepSeek '', Providers = [], APIKey = '' sk-1 '',
                BaseURL = '' '', Model = ''my-model''\<rparr>"
  have k: "TrimSpace (APIKey ?cfg) = ''sk-1''" "TrimSpace (BaseURL ?cfg) = []"
    "TrimSpace (Model ?cfg) = ''my-model''"
    by (simp_all add: TrimSpace_def isSpace_def)
  have n: "ToLower (TrimSpace (Provider ?cfg)) = ''deepseek''"
    using example_name_normalised by simp
  from NewProvider_resolution [of ?cfg] show ?thesis
    unfolding k n Let_def by auto
qed

lemma providerDefaults_idem:
  "providerDefaults n (fst (providerDefaults n b m)) (snd (providerDefaults n b m)) =
     providerDefaults n b m"
  by (simp add: providerDefaults_def defaultModel_def)

text \<open>
  C8. Provider-default filling is idempotent: filling the defaults into an already
  filled (baseURL, model) pair gives the same pair, and resolving a configuration
  whose base URL and model are those of an earlier resolution gives the same result.
\<close>

theorem resolveProvider_idempotent:
  "providerDefaults n (fst (providerDefaults n b m)) (snd (providerDefaults n b m)) =
     providerDefaults n b m \<and>
   (\<forall>baseURL k model'.
      resolveProvider cfg = Inr (baseURL, k, model') \<longrightarrow>
      resolveProvider (cfg\<lparr>BaseURL := baseURL, Model := model'\<rparr>) = Inr (baseURL, k, model'))"
proof (intro conjI allI impI)
  show "providerDefaults n (fst (providerDefaults n b m)) (snd (providerDefaults n b m)) =
     providerDefaults n b m" by (rule providerDefaults_idem)
next
  fix baseURL k model'
  assume r: "resolveProvider cfg = Inr (baseURL, k, model')"
  then have key: "TrimSpace (APIKey cfg) \<noteq> []"
    by (auto simp: resolveProvider_def split: if_splits)
  let ?n = "ToLower (TrimSpace (Provider cfg))"
  let ?pd = "providerDefaults ?n (TrimSpace (BaseURL cfg)) (TrimSpace (Model cfg))"
  from r resolveProvider_eq [OF key]
  have eqs: "baseURL = fst ?pd" "k = TrimSpace (APIKey cfg)" "model' = snd ?pd" by simp_all
  have t: "TrimSpace (fst ?pd) = fst ?pd" "TrimSpace (snd ?pd) = snd ?pd"
    by (rule providerDefaults_trimmed; simp add: TrimSpace_idem)+
  let ?cfg' = "cfg\<lparr>BaseURL := baseURL, Model := model'\<rparr>"
  have key': "TrimSpace (APIKey ?cfg') \<noteq> []" using key by simp
  show "resolveProvider ?cfg' = Inr (baseURL, k, model')"
    unfolding resolveProvider_eq [OF key']
    by (simp add: eqs t providerDefaults_idem)
qed

theorem resolveProvider_idempotent_witness:
  "resolveProvider \<lparr>Provider = ''qwen'', Providers = [], APIKey = ''sk-1'',
                    BaseURL = [], Model = [] \<rparr> =
     Inr (''https://dashscope.aliyuncs.com/compatible-mode/v1'', ''sk-1'', ''qwen-turbo'') \<and>
   resolveProvider \<lparr>Provider = ''qwen'', Providers = [], APIKey = ''sk-1'',
                    BaseURL = ''https://dashscope.aliyuncs.com/compatible-mode/v1'',
                    Model = ''qwen-turbo''\<rparr> =
     Inr (''https://dashscope.aliyuncs.com/compatible-mode/v1'', ''sk-1'', ''qwen-turbo'')"
proof -
  let ?cfg = "\<lparr>Provider = ''qwen'', Providers = [], APIKey = ''sk-1'', BaseURL = [], Model = [] \<rparr>"
  have l: "ToLower (TrimSpace ''qwen'') = ''qwen''" by code_simp
  have r: "resolveProvider ?cfg =
     Inr (''https://dashscope.aliyuncs.com/compatible-mode/v1'', ''sk-1'', ''qwen-turbo'')"
    using l by (simp add: resolveProvider_def providerDefaults_def TrimSpace_def isSpace_def)
  from resolveProvider_idempotent [of _ _ _ ?cfg] r show ?thesis by simp
qed

section \<open>The chat call\<close>

lemma Chat_with_client:
  assumes "client p = Some c"
  shows "Chat net (Some p) prompt =
     (if TrimSpace prompt = [] then Inl PromptEmpty
      else
        (case net c \<lparr>reqModel = model p,
                      Messages = [\<lparr>Role = ChatMessageRoleUser, Content = TrimSpace prompt\<rparr>]\<rparr> of
           Inl e \<Rightarrow> Inl (ChatCallFailed e)
         | Inr resp \<Rightarrow>
             (case Choices resp of
                [] \<Rightarrow> Inl NoChoices
              | choice # _ \<Rightarrow>
                  if TrimSpace (Content choice) = [] then Inl ContentEmpty
                  else Inr (TrimSpace (Content choice)))))"
  using assms by (simp add: Chat_def Let_def split: sum.splits list.splits)

text \<open>
  C6, as amended. For a provider with a client, \<open>Chat\<close> fails exactly when the prompt
  is blank, the transport call returns an error, or the response has no choice or
  its first choice has blank text; on success it returns the first choice's text,
  trimmed. Later choices are never read.
\<close>

theorem Chat_fails_iff:
  assumes "client p = Some c"
  shows "(isl (Chat net (Some p) prompt) \<longleftrightarrow>
            TrimSpace prompt = [] \<or>
            isl (net c \<lparr>reqModel = model p,
                        Messages = [\<lparr>Role = ChatMessageRoleUser, Content = TrimSpace prompt\<rparr>]\<rparr>) \<or>
            (\<exists>resp. net c \<lparr>reqModel = model p,
                        Messages = [\<lparr>Role = ChatMessageRoleUser, Content = TrimSpace prompt\<rparr>]\<rparr>
                       = Inr resp \<and>
                    (Choices resp = [] \<or> TrimSpace (Content (hd (Choices resp))) = [])))
       \<and> (\<forall>resp. TrimSpace prompt \<noteq> [] \<and>
                 net c \<lparr>reqModel = model p,
                        Messages = [\<lparr>Role = ChatMessageRoleUser, Content = TrimSpace prompt\<rparr>]\<rparr>
                   = Inr resp \<and>
                 Choices resp \<noteq> [] \<and> TrimSpace (Content (hd (Choices resp))) \<noteq> [] \<longrightarrow>
                 Chat net (Some p) prompt = Inr (TrimSpace (Content (hd (Choices resp)))))"
  unfolding Chat_with_client [OF assms]
  by (auto split: sum.splits list.splits)

theorem Chat_fails_iff_witness:
  "client exampleProvider = Some (DefaultConfig ''sk-1'') \<and>
   Chat (\<lambda>c req. Inr \<lparr>Choices = [\<lparr>Role = ''assistant'', Content = '' LGTM ''\<rparr>]\<rparr>)
        (Some exampleProvider) ''review this'' = Inr ''LGTM''"
proof -
  have c: "client exampleProvider = Some (DefaultConfig ''sk-1'')"
    by (simp add: exampleProvider_def)
  have t: "TrimSpace ''review this'' \<noteq> []" "TrimSpace '' LGTM '' = ''LGTM''"
    by (simp_all add: TrimSpace_def isSpace_def)
  from Chat_fails_iff [OF c, of "\<lambda>c req. Inr \<lparr>Choices = [\<lparr>Role = ''assistant'', Content = '' LGTM ''\<rparr>]\<rparr>"
      "''review this''"] t c
  show ?thesis by simp
qed

text \<open>
  C6 as stated fails: a response whose second choice has non-blank text and whose
  first choice is blank makes the call fail.
\<close>

theorem Chat_some_choice_counterexample:
  "TrimSpace (Content (Choices exampleResponse ! 1)) = ''LGTM'' \<and>
   Chat (\<lambda>c req. Inr exampleResponse) (Some exampleProvider) ''review this'' = Inl ContentEmpty"
  by (simp add: exampleResponse_def exampleProvider_def Chat_def TrimSpace_def isSpace_def)

section \<open>The config commands\<close>

lemma map_of_update_other: "k' \<noteq> k \<Longrightarrow> map_of (AList.update k v m) k' = map_of m k'"
  by (simp add: update_conv')

lemma index_update_same: "index (AList.update k v m) k = v"
  by (simp add: index_def update_conv')

lemma index_update_other: "k' \<noteq> k \<Longrightarrow> index (AList.update k v m) k' = index m k'"
  by (simp add: index_def update_conv')

text \<open>
  C7. \<open>config set-provider P\<close> fails, with an error naming the missing precondition
  and without writing, when the file does not exist, when the document has no
  providers map, and when that map has no key \<open>P\<close>. When the preconditions hold it
  hands the whole document to the writer with only the \<open>provider\<close> field changed,
  to \<open>P\<close>, and returns the writer's result.
\<close>

theorem setProviderCmd_preconditions:
  "(setProviderCmd W P NoFile = \<lparr>result = Some ConfigFileMissing, written = None\<rparr>) \<and>
   (\<forall>config. (config = None \<or> (\<exists>c. config = Some c \<and> asMap (index c ''providers'') = None)) \<longrightarrow>
      setProviderCmd W P (Document config) = \<lparr>result = Some (ProvidersMissing P), written = None\<rparr>) \<and>
   (\<forall>c ps. asMap (index c ''providers'') = Some ps \<and> map_of ps P = None \<longrightarrow>
      setProviderCmd W P (Document (Some c)) = \<lparr>result = Some (ProviderAbsent P), written = None\<rparr>) \<and>
   (\<forall>c ps. asMap (index c ''providers'') = Some ps \<and> map_of ps P \<noteq> None \<longrightarrow>
      (\<exists>c'. written (setProviderCmd W P (Document (Some c))) = Some c' \<and>
            c' = AList.update ''provider'' (YStr P) c \<and>
            index c' ''provider'' = YStr P \<and>
            (\<forall>k. k \<noteq> ''provider'' \<longrightarrow> map_of c' k = map_of c k) \<and>
            result (setProviderCmd W P (Document (Some c))) =
              (case W c' of None \<Rightarrow> None | Some e \<Rightarrow> Some (WriteFileFailed e))))"
  by (auto simp: setProviderCmd_def failWith_def writeConfig_def index_update_same
        map_of_update_other)

theorem setProviderCmd_preconditions_witness:
  "setProviderCmd (\<lambda>_. None) ''qwen'' NoFile = \<lparr>result = Some ConfigFileMissing, written = None\<rparr> \<and>
   setProviderCmd (\<lambda>_. None) ''qwen'' (Document (Some [(''api_key'', YStr ''sk-0'')])) =
     \<lparr>result = Some (ProvidersMissing ''qwen''), written = None\<rparr> \<and>
   setProviderCmd (\<lambda>_. None) ''foo'' (Document (Some exampleDocument)) =
     \<lparr>result = Some (ProviderAbsent ''foo''), written = None\<rparr> \<and>
   setProviderCmd (\<lambda>_. None) ''qwen'' (Document (Some exampleDocument)) =
     \<lparr>result = None,
      written = Some [(''provider'', YStr ''qwen''),
                      (''providers'', YMap [(''deepseek'', YMap [(''api_key'', YStr ''sk-1'')]),
                                           (''qwen'', YMap [(''api_key'', YStr ''sk-2'')])]),
                      (''api_key'', YStr ''sk-0'')]\<rparr>"
proof -
  have a: "asMap (index [(''api_key'', YStr ''sk-0'')] ''providers'') = None"
    by (simp add: asMap_def index_def)
  have b: "asMap (index exampleDocument ''providers'') =
      Some [(''deepseek'', YMap [(''api_key'', YStr ''sk-1'')]),
            (''qwen'', YMap [(''api_key'', YStr ''sk-2'')])]"
    by (simp add: asMap_def index_def exampleDocument_def)
  have w: "W = (\<lambda>_. None) \<Longrightarrow> (case W c of None \<Rightarrow> None | Some e \<Rightarrow> Some (WriteFileFailed e)) = None"
    for W :: "ymap \<Rightarrow> error option" and c by simp
  note t = setProviderCmd_preconditions [of "\<lambda>_. None"]
  have 1: "setProviderCmd (\<lambda>_. None) ''qwen'' NoFile = \<lparr>result = Some ConfigFileMissing, written = None\<rparr>"
    using t [of "''qwen''"] by blast
  have 2: "setProviderCmd (\<lambda>_. None) ''qwen'' (Document (Some [(''api_key'', YStr ''sk-0'')])) =
     \<lparr>result = Some (ProvidersMissing ''qwen''), written = None\<rparr>"
    using t [of "''qwen''"] a by blast
  have 3: "setProviderCmd (\<lambda>_. None) ''foo'' (Document (Some exampleDocument)) =
     \<lparr>result = Some (ProviderAbsent ''foo''), written = None\<rparr>"
    using t [of "''foo''"] b by simp
  have "written (setProviderCmd (\<lambda>_. None) ''qwen'' (Document (Some exampleDocument))) =
          Some (AList.update ''provider'' (YStr ''qwen'') exampleDocument) \<and>
        result (setProviderCmd (\<lambda>_. None) ''qwen'' (Document (Some exampleDocument))) = None"
    using t [of "''qwen''"] b by simp
  then have 4: "setProviderCmd (\<lambda>_. None) ''qwen'' (Document (Some exampleDocument)) =
     \<lparr>result = None,
      written = Some [(''provider'', YStr ''qwen''),
                      (''providers'', YMap [(''deepseek'', YMap [(''api_key'', YStr ''sk-1'')]),
                                           (''qwen'', YMap [(''api_key'', YStr ''sk-2'')])]),
                      (''api_key'', YStr ''sk-0'')]\<rparr>"
    by (cases "setProviderCmd (\<lambda>_. None) ''qwen'' (Document (Some exampleDocument))")
       (simp add: exampleDocument_def)
  from 1 2 3 4 show ?thesis by blast
qed


text \<open>set-key with a provider on the empty mapping: the document handed to the writer.\<close>

lemma setKeyBody_fresh:
  assumes "P \<noteq> []"
  shows "setKeyBody W K P (Some []) =
     writeConfig W [(''providers'', YMap [(P, YMap (setKeyDefaults P [(''api_key'', YStr K)]))]),
                    (''provider'', YStr P)]"
  using assms by (simp add: setKeyBody_def index_def asMap_def Let_def)

text \<open>
  On a decoded document that is the nil map (an empty file), set-key reaches an
  assignment into that nil map.
\<close>

lemma setKeyCmd_nil_map: "setKeyCmd W K P (Document None) = \<lparr>result = Some NilMapPanic, written = None\<rparr>"
  by (simp add: setKeyCmd_def setKeyBody_def failWith_def)

text \<open>
  C3, as amended. \<open>config set-key K --provider P\<close> with a non-empty \<open>P\<close>, on a missing
  file or a document that is the empty mapping, writes a document whose \<open>providers\<close>
  map has the single entry \<open>P\<close> with \<open>api_key\<close> \<open>K\<close> and whose \<open>provider\<close> is \<open>P\<close>. The
  entry gets the DeepSeek base URL and model when \<open>P\<close> is exactly \<open>deepseek\<close>, the
  Qwen ones when \<open>P\<close> is exactly \<open>qwen\<close>, \<open>tongyi\<close>, \<open>ali\<close> or \<open>aliyun\<close>, the model
  \<open>gpt-4o-mini\<close> and no base URL when \<open>P\<close> is exactly \<open>openai\<close>, and nothing more for
  any other \<open>P\<close>: the name is compared as typed.
\<close>

theorem setKeyCmd_fresh_document:
  assumes "file = NoFile \<or> file = Document (Some [])"
    and "P \<noteq> []"
  shows "\<exists>pc. written (setKeyCmd W K P file) =
                Some [(''providers'', YMap [(P, YMap pc)]), (''provider'', YStr P)] \<and>
              index pc ''api_key'' = YStr K \<and>
              (P = ''deepseek'' \<longrightarrow>
                 pc = [(''api_key'', YStr K), (''base_url'', YStr ''https://api.deepseek.com''),
                       (''model'', YStr ''deepseek-coder'')]) \<and>
              (P \<in> {''qwen'', ''tongyi'', ''ali'', ''aliyun''} \<longrightarrow>
                 pc = [(''api_key'', YStr K),
                       (''base_url'', YStr ''https://dashscope.aliyuncs.com/compatible-mode/v1''),
                       (''model'', YStr ''qwen-turbo'')]) \<and>
              (P = ''openai'' \<longrightarrow>
                 pc = [(''api_key'', YStr K), (''model'', YStr ''gpt-4o-mini'')]) \<and>
              (P \<notin> {''deepseek'', ''qwen'', ''tongyi'', ''ali'', ''aliyun'', ''openai''} \<longrightarrow>
                 pc = [(''api_key'', YStr K)])"
proof -
  have "setKeyCmd W K P file = setKeyBody W K P (Some [])"
    using assms(1) by (auto simp: setKeyCmd_def)
  then have w: "written (setKeyCmd W K P file) =
     Some [(''providers'', YMap [(P, YMap (setKeyDefaults P [(''api_key'', YStr K)]))]),
           (''provider'', YStr P)]"
    by (simp add: setKeyBody_fresh [OF assms(2)] writeConfig_def)
  show ?thesis
    by (rule exI [of _ "setKeyDefaults P [(''api_key'', YStr K)]"])
       (simp add: w setKeyDefaults_def index_def)
qed

theorem setKeyCmd_fresh_document_witness:
  "(NoFile = NoFile \<or> NoFile = Document (Some [])) \<and> ''deepseek'' \<noteq> [] \<and>
   written (setKeyCmd (\<lambda>_. None) ''ABC123'' ''deepseek'' NoFile) =
     Some [(''providers'',
            YMap [(''deepseek'',
                   YMap [(''api_key'', YStr ''ABC123''),
                         (''base_url'', YStr ''https://api.deepseek.com''),
                         (''model'', YStr ''deepseek-coder'')])]),
           (''provider'', YStr ''deepseek'')]"
  using setKeyCmd_fresh_document [of NoFile "''deepseek''" "\<lambda>_. None" "''ABC123''"]
  by auto

text \<open>
  C3 as stated fails: \<open>DeepSeek\<close> matches \<open>deepseek\<close> case-insensitively, yet set-key
  writes its entry without base URL and model.
\<close>

lemma example_name_matches: "ToLower (TrimSpace ''DeepSeek'') = ''deepseek''"
  by code_simp

theorem setKeyCmd_case_counterexample:
  "ToLower (TrimSpace ''DeepSeek'') = ''deepseek'' \<and>
   written (setKeyCmd (\<lambda>_. None) ''ABC123'' ''DeepSeek'' NoFile) =
     Some [(''providers'', YMap [(''DeepSeek'', YMap [(''api_key'', YStr ''ABC123'')])]),
           (''provider'', YStr ''DeepSeek'')]"
  using example_name_matches
  by (simp add: setKeyCmd_def setKeyBody_fresh writeConfig_def setKeyDefaults_def)

section \<open>The review orchestrator\<close>

lemma reviewLoop_first_failure:
  assumes "\<forall>f \<in> set pre. \<exists>d r. getFileStagedDiff git f = Inr d \<and> chat (buildReviewPrompt d) = Inr r"
    and "(\<exists>e. getFileStagedDiff git f = Inl e \<and> w = FileDiffFailed f e) \<or>
         (\<exists>d e. getFileStagedDiff git f = Inr d \<and> chat (buildReviewPrompt d) = Inl e \<and>
                w = FileReviewFailed f e)"
  shows "reviewLoop git chat all_files (pre @ f # rest) revs =
           \<lparr>msg_files = None, msg_reviews = None, msg_err = Some w\<rparr>"
  using assms(1)
proof (induction pre arbitrary: revs)
  case Nil
  from assms(2) show ?case by auto
next
  case (Cons g pre)
  then obtain d r where "getFileStagedDiff git g = Inr d" "chat (buildReviewPrompt d) = Inr r"
    by auto
  with Cons show ?case by simp
qed

lemma reviewLoop_outcome:
  "(\<exists>r. reviewLoop git chat all_files fs revs =
          \<lparr>msg_files = Some all_files, msg_reviews = Some r, msg_err = None\<rparr>) \<or>
   (\<exists>w. reviewLoop git chat all_files fs revs =
          \<lparr>msg_files = None, msg_reviews = None, msg_err = Some w\<rparr>)"
  by (induction fs arbitrary: revs) (auto split: sum.splits)

lemma getFileStagedDiff_empty:
  assumes "git [''diff'', ''--cached'', ''--unified=0'', ''--'', f] = (out, None)"
    and "TrimSpace out = []"
  shows "getFileStagedDiff git f = Inl (NoStagedDiff f)"
  using assms by (simp add: getFileStagedDiff_def)

text \<open>
  C4. The orchestrator stops at the first failure. When the listing gives \<open>fs\<close>, every
  file before position \<open>k\<close> gets its diff and its reply, and the diff fetch or the chat
  call of file \<open>k\<close> fails, the completion message carries that failure wrapped with
  the file's name and the operation, and its file list and result mapping are nil:
  nothing of the earlier files is returned. A fetch whose output is blank is such
  a failure of the diff fetch.
\<close>

theorem loadReviewsCmd_short_circuit:
  assumes "GetChangedFiles git = Inr fs"
    and "k < length fs"
    and "\<forall>j<k. \<exists>d r. getFileStagedDiff git (fs ! j) = Inr d \<and> chat (buildReviewPrompt d) = Inr r"
    and "(\<exists>e. getFileStagedDiff git (fs ! k) = Inl e \<and> w = FileDiffFailed (fs ! k) e) \<or>
         (\<exists>d e. getFileStagedDiff git (fs ! k) = Inr d \<and> chat (buildReviewPrompt d) = Inl e \<and>
                w = FileReviewFailed (fs ! k) e)"
  shows "loadReviewsCmd git (Some chat) = \<lparr>msg_files = None, msg_reviews = None, msg_err = Some w\<rparr>
       \<and> (\<forall>out. git [''diff'', ''--cached'', ''--unified=0'', ''--'', fs ! k] = (out, None) \<and>
                TrimSpace out = [] \<longrightarrow>
              w = FileDiffFailed (fs ! k) (NoStagedDiff (fs ! k)))"
proof -
  from assms(2) have split: "fs = take k fs @ (fs ! k) # drop (Suc k) fs"
    by (simp add: id_take_nth_drop)
  have pre: "\<forall>f \<in> set (take k fs). \<exists>d r. getFileStagedDiff git f = Inr d \<and>
                chat (buildReviewPrompt d) = Inr r"
  proof
    fix f assume "f \<in> set (take k fs)"
    then obtain j where "j < k" "j < length fs" "f = fs ! j"
      using assms(2) by (auto simp: in_set_conv_nth)
    with assms(3) show "\<exists>d r. getFileStagedDiff git f = Inr d \<and> chat (buildReviewPrompt d) = Inr r"
      by simp
  qed
  have "reviewLoop git chat fs (take k fs @ (fs ! k) # drop (Suc k) fs) Map.empty =
          \<lparr>msg_files = None, msg_reviews = None, msg_err = Some w\<rparr>"
    by (rule reviewLoop_first_failure [OF pre assms(4)])
  with split have loop: "reviewLoop git chat fs fs Map.empty =
          \<lparr>msg_files = None, msg_reviews = None, msg_err = Some w\<rparr>"
    by simp
  from assms(2) have "fs \<noteq> []" by auto
  with assms(1) loop have 1: "loadReviewsCmd git (Some chat) =
      \<lparr>msg_files = None, msg_reviews = None, msg_err = Some w\<rparr>"
    by (simp add: loadReviewsCmd_def)
  have 2: "w = FileDiffFailed (fs ! k) (NoStagedDiff (fs ! k))"
    if "git [''diff'', ''--cached'', ''--unified=0'', ''--'', fs ! k] = (out, None)"
      and "TrimSpace out = []" for out
    using getFileStagedDiff_empty [of git "fs ! k" out] that assms(4) by auto
  from 1 2 show ?thesis by blast
qed

lemma exampleGit_files: "GetChangedFiles exampleGit = Inr [''a.go'', ''b.go'']"
  by (simp add: GetChangedFiles_def exampleGit_def TrimSpace_def isSpace_def)

lemma exampleGitAll_files: "GetChangedFiles exampleGitAll = Inr [''a.go'', ''b.go'']"
  by (simp add: GetChangedFiles_def exampleGitAll_def TrimSpace_def isSpace_def)

lemma exampleGit_a: "getFileStagedDiff exampleGit ''a.go'' = Inr ''+x := 1''"
  by (simp add: getFileStagedDiff_def exampleGit_def TrimSpace_def isSpace_def)

lemma exampleGit_b: "getFileStagedDiff exampleGit ''b.go'' = Inl (NoStagedDiff ''b.go'')"
  by (simp add: getFileStagedDiff_def exampleGit_def TrimSpace_def isSpace_def)

theorem loadReviewsCmd_short_circuit_witness:
  "GetChangedFiles exampleGit = Inr [''a.go'', ''b.go''] \<and>
   getFileStagedDiff exampleGit ''a.go'' = Inr ''+x := 1'' \<and>
   getFileStagedDiff exampleGit ''b.go'' = Inl (NoStagedDiff ''b.go'') \<and>
   loadReviewsCmd exampleGit (Some (\<lambda>prompt. Inr ''LGTM'')) =
     \<lparr>msg_files = None, msg_reviews = None,
      msg_err = Some (FileDiffFailed ''b.go'' (NoStagedDiff ''b.go''))\<rparr>"
proof -
  have k: "(1::nat) < length [''a.go'', ''b.go'']" by simp
  have pre: "\<forall>j<(1::nat). \<exists>d r. getFileStagedDiff exampleGit ([''a.go'', ''b.go''] ! j) = Inr d \<and>
               (\<lambda>prompt. Inr ''LGTM'' :: error + string) (buildReviewPrompt d) = Inr r"
    using exampleGit_a by simp
  have fail: "(\<exists>e. getFileStagedDiff exampleGit ([''a.go'', ''b.go''] ! 1) = Inl e \<and>
                FileDiffFailed ''b.go'' (NoStagedDiff ''b.go'') = FileDiffFailed ([''a.go'', ''b.go''] ! 1) e) \<or>
         (\<exists>d e. getFileStagedDiff exampleGit ([''a.go'', ''b.go''] ! 1) = Inr d \<and>
                (\<lambda>prompt. Inr ''LGTM'' :: error + string) (buildReviewPrompt d) = Inl e \<and>
                FileDiffFailed ''b.go'' (NoStagedDiff ''b.go'') = FileReviewFailed ([''a.go'', ''b.go''] ! 1) e)"
    using exampleGit_b by simp
  from loadReviewsCmd_short_circuit [OF exampleGit_files k pre fail] exampleGit_files exampleGit_a
    exampleGit_b
  show ?thesis by simp
qed


text \<open>
  C9. With a provider present and an empty staged-file listing, the completion
  message carries an empty, non-nil file list, an empty result mapping and no error;
  a session that is neither loading nor in error and has no files shows the fixed
  no-changes message, and so does the session that receives this message.
\<close>

theorem loadReviewsCmd_no_files:
  "(GetChangedFiles git = Inr [] \<longrightarrow>
      loadReviewsCmd git (Some chat) =
        \<lparr>msg_files = Some [], msg_reviews = Some Map.empty, msg_err = None\<rparr>) \<and>
   (\<not> loading m \<and> err m = None \<and> len (files m) = 0 \<longrightarrow>
      View m = centerInTerminal NoChangesContent (width m) (height m)) \<and>
   (GetChangedFiles git = Inr [] \<longrightarrow>
      View (fst (Update m0 (ReviewLoaded (loadReviewsCmd git (Some chat))))) =
        centerInTerminal NoChangesContent (width m0) (height m0))"
  by (simp add: loadReviewsCmd_def View_def viewContent_def len_def Let_def)

theorem loadReviewsCmd_no_files_witness:
  "GetChangedFiles (\<lambda>args. ([CHR 0x0A], None)) = Inr [] \<and>
   loadReviewsCmd (\<lambda>args. ([CHR 0x0A], None)) (Some (\<lambda>prompt. Inr ''LGTM'')) =
     \<lparr>msg_files = Some [], msg_reviews = Some Map.empty, msg_err = None\<rparr> \<and>
   View (fst (Update (NewModel (Some (\<lambda>prompt. Inr ''LGTM'')))
                (ReviewLoaded (loadReviewsCmd (\<lambda>args. ([CHR 0x0A], None))
                                 (Some (\<lambda>prompt. Inr ''LGTM'')))))) =
     Plain NoChangesContent"
proof -
  let ?git = "(\<lambda>args. ([CHR 0x0A], None)) :: Git"
  let ?chat = "(\<lambda>prompt. Inr ''LGTM'') :: LLMProvider"
  let ?m0 = "NewModel (Some ?chat)"
  have g: "GetChangedFiles ?git = Inr []"
    by (simp add: GetChangedFiles_def TrimSpace_def isSpace_def)
  note t = loadReviewsCmd_no_files [of ?git ?chat _ ?m0]
  have 1: "loadReviewsCmd ?git (Some ?chat) =
     \<lparr>msg_files = Some [], msg_reviews = Some Map.empty, msg_err = None\<rparr>"
    using t g by blast
  have "View (fst (Update ?m0 (ReviewLoaded (loadReviewsCmd ?git (Some ?chat))))) =
          centerInTerminal NoChangesContent (width ?m0) (height ?m0)"
    using t g by blast
  also have "\<dots> = Plain NoChangesContent"
    by (simp add: NewModel_def centerInTerminal_def)
  finally show ?thesis using g 1 by blast
qed

lemma Chat_reply_trimmed:
  assumes "Chat net p prompt = Inr t"
  shows "t \<noteq> [] \<and> TrimSpace t = t"
  using assms
  by (auto simp: Chat_def Let_def TrimSpace_idem
           split: option.splits if_splits sum.splits list.splits)

lemma reviewLoop_success:
  assumes "\<forall>prompt t. chat prompt = Inr t \<longrightarrow> t \<noteq> [] \<and> TrimSpace t = t"
    and "\<forall>f t. revs f = Some t \<longrightarrow> t \<noteq> [] \<and> TrimSpace t = t"
    and "msg_err (reviewLoop git chat all_files fs revs) = None"
  shows "\<exists>r. reviewLoop git chat all_files fs revs =
               \<lparr>msg_files = Some all_files, msg_reviews = Some r, msg_err = None\<rparr> \<and>
             dom r = dom revs \<union> set fs \<and>
             (\<forall>f t. r f = Some t \<longrightarrow> t \<noteq> [] \<and> TrimSpace t = t)"
  using assms(2,3)
proof (induction fs arbitrary: revs)
  case Nil
  then show ?case by simp
next
  case (Cons f fs)
  from Cons.prems(2) obtain d where d: "getFileStagedDiff git f = Inr d"
    by (cases "getFileStagedDiff git f") simp_all
  from Cons.prems(2) d obtain reply where reply: "chat (buildReviewPrompt d) = Inr reply"
    by (cases "chat (buildReviewPrompt d)") simp_all
  from assms(1) reply have good: "reply \<noteq> [] \<and> TrimSpace reply = reply" by blast
  have step: "reviewLoop git chat all_files (f # fs) revs =
                reviewLoop git chat all_files fs (revs(f \<mapsto> reply))"
    using d reply by simp
  have "\<forall>g t. (revs(f \<mapsto> reply)) g = Some t \<longrightarrow> t \<noteq> [] \<and> TrimSpace t = t"
    using Cons.prems(1) good by auto
  moreover have "msg_err (reviewLoop git chat all_files fs (revs(f \<mapsto> reply))) = None"
    using Cons.prems(2) step by simp
  ultimately obtain r where
    r: "reviewLoop git chat all_files fs (revs(f \<mapsto> reply)) =
          \<lparr>msg_files = Some all_files, msg_reviews = Some r, msg_err = None\<rparr>"
       "dom r = dom (revs(f \<mapsto> reply)) \<union> set fs"
       "\<forall>g t. r g = Some t \<longrightarrow> t \<noteq> [] \<and> TrimSpace t = t"
    using Cons.IH by blast
  from r(2) have "dom r = dom revs \<union> set (f # fs)" by auto
  with r(1,3) step show ?case by auto
qed

lemma selectedReviewMD_loaded:
  assumes "files m = Some fs" and "reviews m = Some r" and "dom r = set fs"
    and "\<forall>f t. r f = Some t \<longrightarrow> t \<noteq> [] \<and> TrimSpace t = t"
  shows "selectedReviewMD m \<noteq> NoReviewPlaceholder"
proof (cases "selected m \<ge> 0 \<and> selected m < len (files m)")
  case False
  then show ?thesis by (auto simp: selectedReviewMD_def)
next
  case True
  then have i: "nat (selected m) < length fs" using assms(1) by (simp add: len_def nat_less_iff)
  then have "fs ! nat (selected m) \<in> dom r" using assms(3) by simp
  then obtain t where t: "r (fs ! nat (selected m)) = Some t" by auto
  with assms(4) have "TrimSpace t \<noteq> []" by auto
  with True t assms(1,2) show ?thesis
    by (simp add: selectedReviewMD_def lookupReview_def Let_def)
qed

text \<open>
  C10. A completion message of the orchestrator, run with an
  \<open>OpenAICompatibleProvider\<close>'s \<open>Chat\<close>, that carries no error and a non-empty file
  list has a result mapping whose domain is the set of listed files, and every entry
  is non-empty and already trimmed. The session stores exactly this list and
  mapping, and with them the Content view never takes the blank-review placeholder
  branch.
\<close>

theorem loadReviewsCmd_success_reviews:
  assumes "msg = loadReviewsCmd git (Some (Chat net p))"
    and "msg_err msg = None"
    and "msg_files msg = Some fs"
    and "fs \<noteq> []"
  shows "\<exists>r. msg_reviews msg = Some r \<and> dom r = set fs \<and>
             (\<forall>f \<in> set fs. \<exists>t. r f = Some t \<and> t \<noteq> [] \<and> TrimSpace t = t) \<and>
             files (fst (Update m0 (ReviewLoaded msg))) = Some fs \<and>
             reviews (fst (Update m0 (ReviewLoaded msg))) = Some r \<and>
             (\<forall>m. files m = Some fs \<and> reviews m = Some r \<longrightarrow>
                  selectedReviewMD m \<noteq> NoReviewPlaceholder)"
proof -
  from assms obtain fs' where g: "GetChangedFiles git = Inr fs'" and ne: "fs' \<noteq> []"
    and loop: "msg = reviewLoop git (Chat net p) fs' fs' Map.empty"
    by (cases "GetChangedFiles git") (auto simp: loadReviewsCmd_def split: if_splits)
  have chat: "\<forall>prompt t. Chat net p prompt = Inr t \<longrightarrow> t \<noteq> [] \<and> TrimSpace t = t"
    using Chat_reply_trimmed by blast
  have "msg_err (reviewLoop git (Chat net p) fs' fs' Map.empty) = None"
    using assms(2) loop by simp
  from reviewLoop_success [OF chat _ this]
  obtain r where r: "msg = \<lparr>msg_files = Some fs', msg_reviews = Some r, msg_err = None\<rparr>"
    "dom r = set fs'" "\<forall>f t. r f = Some t \<longrightarrow> t \<noteq> [] \<and> TrimSpace t = t"
    using loop by auto
  from r(1) assms(3) have fs: "fs' = fs" by simp
  have entries: "\<forall>f \<in> set fs. \<exists>t. r f = Some t \<and> t \<noteq> [] \<and> TrimSpace t = t"
    using r(2,3) fs by (metis domD)
  have upd: "files (fst (Update m0 (ReviewLoaded msg))) = Some fs"
    "reviews (fst (Update m0 (ReviewLoaded msg))) = Some r"
    using r(1) fs by (simp_all add: Let_def)
  have view: "\<forall>m. files m = Some fs \<and> reviews m = Some r \<longrightarrow>
                  selectedReviewMD m \<noteq> NoReviewPlaceholder"
    using selectedReviewMD_loaded r(2,3) fs by blast
  from r(1,2) fs entries upd view show ?thesis by auto
qed


lemma exampleGitAll_diff: "getFileStagedDiff exampleGitAll f = Inr ''+x := 1''"
  by (simp add: getFileStagedDiff_def exampleGitAll_def TrimSpace_def isSpace_def)

lemma example_prompt_not_blank: "TrimSpace (buildReviewPrompt ''+x := 1'') \<noteq> []"
  by (simp add: buildReviewPrompt_def systemPrompt_def userPromptPrefix_def TrimSpace_def
        isSpace_def)

lemma example_chat:
  "Chat (\<lambda>c req. Inr \<lparr>Choices = [\<lparr>Role = ''assistant'', Content = '' LGTM ''\<rparr>]\<rparr>)
     (Some exampleProvider) (buildReviewPrompt ''+x := 1'') = Inr ''LGTM''"
proof -
  have "TrimSpace '' LGTM '' = ''LGTM''" by (simp add: TrimSpace_def isSpace_def)
  then show ?thesis
    using example_prompt_not_blank by (simp add: Chat_def exampleProvider_def Let_def)
qed

lemma example_load:
  "loadReviewsCmd exampleGitAll
     (Some (Chat (\<lambda>c req. Inr \<lparr>Choices = [\<lparr>Role = ''assistant'', Content = '' LGTM ''\<rparr>]\<rparr>)
              (Some exampleProvider))) =
   \<lparr>msg_files = Some [''a.go'', ''b.go''],
    msg_reviews = Some [''a.go'' \<mapsto> ''LGTM'', ''b.go'' \<mapsto> ''LGTM''],
    msg_err = None\<rparr>"
  by (simp add: loadReviewsCmd_def exampleGitAll_files exampleGitAll_diff example_chat)

theorem loadReviewsCmd_success_reviews_witness:
  "msg_err (loadReviewsCmd exampleGitAll
     (Some (Chat (\<lambda>c req. Inr \<lparr>Choices = [\<lparr>Role = ''assistant'', Content = '' LGTM ''\<rparr>]\<rparr>)
              (Some exampleProvider)))) = None \<and>
   msg_files (loadReviewsCmd exampleGitAll
     (Some (Chat (\<lambda>c req. Inr \<lparr>Choices = [\<lparr>Role = ''assistant'', Content = '' LGTM ''\<rparr>]\<rparr>)
              (Some exampleProvider)))) = Some [''a.go'', ''b.go''] \<and>
   [''a.go'', ''b.go''] \<noteq> [] \<and>
   selectedReviewMD (fst (Update (NewModel None) (ReviewLoaded (loadReviewsCmd exampleGitAll
     (Some (Chat (\<lambda>c req. Inr \<lparr>Choices = [\<lparr>Role = ''assistant'', Content = '' LGTM ''\<rparr>]\<rparr>)
              (Some exampleProvider))))))) \<noteq> NoReviewPlaceholder"
proof -
  let ?msg = "loadReviewsCmd exampleGitAll
     (Some (Chat (\<lambda>c req. Inr \<lparr>Choices = [\<lparr>Role = ''assistant'', Content = '' LGTM ''\<rparr>]\<rparr>)
              (Some exampleProvider)))"
  have e: "msg_err ?msg = None" and f: "msg_files ?msg = Some [''a.go'', ''b.go'']"
    by (simp_all add: example_load)
  have n: "[''a.go'', ''b.go''] \<noteq> []" by simp
  from loadReviewsCmd_success_reviews [OF refl e f n, of "NewModel None"]
  have "selectedReviewMD (fst (Update (NewModel None) (ReviewLoaded ?msg))) \<noteq> NoReviewPlaceholder"
    by blast
  with e f n show ?thesis by blast
qed

section \<open>The interactive session\<close>

lemma Update_key_navigation:
  "Update m (KeyMsg key) =
     (if key = ''q'' \<or> key = ''ctrl+c'' then (m, Quit)
      else if loading m \<or> err m \<noteq> None then (m, NoCmd)
      else if key = ''up'' \<or> key = ''k'' then
        (if selected m > 0 then (m\<lparr>selected := selected m - 1\<rparr>, NoCmd) else (m, NoCmd))
      else if key = ''down'' \<or> key = ''j'' then
        (if selected m < len (files m) - 1 then (m\<lparr>selected := selected m + 1\<rparr>, NoCmd)
         else (m, NoCmd))
      else (m, NoCmd))"
  by simp

lemma Update_cursor_in_range:
  assumes "0 \<le> selected m" and "0 < len (files m) \<longrightarrow> selected m < len (files m)"
  shows "0 \<le> selected (fst (Update m msg)) \<and>
         (0 < len (files (fst (Update m msg))) \<longrightarrow>
            selected (fst (Update m msg)) < len (files (fst (Update m msg))))"
proof (cases msg)
  case (KeyMsg key)
  show ?thesis unfolding KeyMsg Update_key_navigation using assms by auto
next
  case (ReviewLoaded l)
  then show ?thesis using assms by (auto simp: Let_def)
qed (use assms in \<open>auto simp: spinner_Update_def\<close>)

lemma run_cursor_in_range:
  assumes "0 \<le> selected m" and "0 < len (files m) \<longrightarrow> selected m < len (files m)"
  shows "0 \<le> selected (run m msgs) \<and>
         (0 < len (files (run m msgs)) \<longrightarrow> selected (run m msgs) < len (files (run m msgs)))"
  using assms
proof (induction msgs arbitrary: m)
  case Nil
  then show ?case by (simp add: run_def)
next
  case (Cons msg msgs)
  have step: "run m (msg # msgs) = run (fst (Update m msg)) msgs" by (simp add: run_def)
  from Update_cursor_in_range [OF Cons.prems, of msg]
  have "0 \<le> selected (fst (Update m msg))"
    and "0 < len (files (fst (Update m msg))) \<longrightarrow>
           selected (fst (Update m msg)) < len (files (fst (Update m msg)))"
    by blast+
  then show ?case unfolding step by (rule Cons.IH)
qed

lemma run_snoc: "run m (msgs @ [msg]) = fst (Update (run m msgs) msg)"
  by (simp add: run_def)

text \<open>
  C5. In every state the session reaches from its start, the cursor is at least 0
  and, when there are files, below their number; in particular right after a
  successful content load. The keys \<open>up\<close>, \<open>k\<close>, \<open>down\<close> and \<open>j\<close> move the cursor by at
  most one, leave the file list alone and keep a cursor that is inside
  \<open>[0, count - 1]\<close> inside it. While loading or in error, a key leaves the cursor
  where it is. The cursor is a Go \<open>int\<close>; the guarded steps cannot overflow.
\<close>

theorem selection_cursor_invariant:
  "(0 \<le> selected (run (NewModel p) msgs) \<and>
    (0 < len (files (run (NewModel p) msgs)) \<longrightarrow>
       selected (run (NewModel p) msgs) < len (files (run (NewModel p) msgs)))) \<and>
   (msg_err l = None \<and> 0 < len (files (fst (Update (run (NewModel p) msgs) (ReviewLoaded l)))) \<longrightarrow>
      0 \<le> selected (fst (Update (run (NewModel p) msgs) (ReviewLoaded l))) \<and>
      selected (fst (Update (run (NewModel p) msgs) (ReviewLoaded l)))
        < len (files (fst (Update (run (NewModel p) msgs) (ReviewLoaded l))))) \<and>
   (key \<in> {''up'', ''k'', ''down'', ''j''} \<longrightarrow>
      \<bar>selected (fst (Update m (KeyMsg key))) - selected m\<bar> \<le> 1 \<and>
      files (fst (Update m (KeyMsg key))) = files m \<and>
      (0 \<le> selected m \<and> selected m \<le> len (files m) - 1 \<longrightarrow>
         0 \<le> selected (fst (Update m (KeyMsg key))) \<and>
         selected (fst (Update m (KeyMsg key))) \<le> len (files m) - 1)) \<and>
   (loading m \<or> err m \<noteq> None \<longrightarrow> selected (fst (Update m (KeyMsg key))) = selected m)"
proof -
  have init: "0 \<le> selected (NewModel p)"
    "0 < len (files (NewModel p)) \<longrightarrow> selected (NewModel p) < len (files (NewModel p))"
    by (simp_all add: NewModel_def len_def)
  have reach: "0 \<le> selected (run (NewModel p) ms) \<and>
      (0 < len (files (run (NewModel p) ms)) \<longrightarrow>
         selected (run (NewModel p) ms) < len (files (run (NewModel p) ms)))" for ms
    by (rule run_cursor_in_range [OF init])
  have load: "0 \<le> selected (fst (Update (run (NewModel p) msgs) (ReviewLoaded l))) \<and>
      (0 < len (files (fst (Update (run (NewModel p) msgs) (ReviewLoaded l)))) \<longrightarrow>
      selected (fst (Update (run (NewModel p) msgs) (ReviewLoaded l)))
        < len (files (fst (Update (run (NewModel p) msgs) (ReviewLoaded l)))))"
    using reach [of "msgs @ [ReviewLoaded l]"] unfolding run_snoc .
  have nav: "key \<in> {''up'', ''k'', ''down'', ''j''} \<longrightarrow>
      \<bar>selected (fst (Update m (KeyMsg key))) - selected m\<bar> \<le> 1 \<and>
      files (fst (Update m (KeyMsg key))) = files m \<and>
      (0 \<le> selected m \<and> selected m \<le> len (files m) - 1 \<longrightarrow>
         0 \<le> selected (fst (Update m (KeyMsg key))) \<and>
         selected (fst (Update m (KeyMsg key))) \<le> len (files m) - 1)"
    unfolding Update_key_navigation by auto
  have ign: "loading m \<or> err m \<noteq> None \<longrightarrow> selected (fst (Update m (KeyMsg key))) = selected m"
    unfolding Update_key_navigation by auto
  from reach [of msgs] load nav ign show ?thesis by blast
qed


theorem selection_cursor_invariant_witness:
  "len (files (run (NewModel None)
      [ReviewLoaded \<lparr>msg_files = Some [''a.go'', ''b.go''], msg_reviews = Some Map.empty,
                     msg_err = None\<rparr>,
       KeyMsg ''down'', KeyMsg ''j'', KeyMsg ''up'', KeyMsg ''down''])) = 2 \<and>
   selected (run (NewModel None)
      [ReviewLoaded \<lparr>msg_files = Some [''a.go'', ''b.go''], msg_reviews = Some Map.empty,
                     msg_err = None\<rparr>,
       KeyMsg ''down'', KeyMsg ''j'', KeyMsg ''up'', KeyMsg ''down'']) = 1 \<and>
   selected (run (NewModel None)
      [ReviewLoaded \<lparr>msg_files = Some [''a.go'', ''b.go''], msg_reviews = Some Map.empty,
                     msg_err = None\<rparr>,
       KeyMsg ''down'', KeyMsg ''j'', KeyMsg ''up'', KeyMsg ''down''])
     < len (files (run (NewModel None)
      [ReviewLoaded \<lparr>msg_files = Some [''a.go'', ''b.go''], msg_reviews = Some Map.empty,
                     msg_err = None\<rparr>,
       KeyMsg ''down'', KeyMsg ''j'', KeyMsg ''up'', KeyMsg ''down''])) \<and>
   ''down'' \<in> {''up'', ''k'', ''down'', ''j''} \<and>
   \<bar>selected (fst (Update (NewModel None) (KeyMsg ''down''))) - selected (NewModel None)\<bar> \<le> 1 \<and>
   loading (NewModel None) \<and>
   selected (fst (Update (NewModel None) (KeyMsg ''down''))) = selected (NewModel None)"
proof -
  let ?msgs = "[ReviewLoaded \<lparr>msg_files = Some [''a.go'', ''b.go''], msg_reviews = Some Map.empty,
                     msg_err = None\<rparr>,
       KeyMsg ''down'', KeyMsg ''j'', KeyMsg ''up'', KeyMsg ''down'']"
  let ?m = "run (NewModel None) ?msgs"
  note t = selection_cursor_invariant [of None ?msgs _ "''down''" "NewModel None"]
  have c: "len (files ?m) = 2" "selected ?m = 1"
    by (simp_all add: run_def NewModel_def len_def Let_def)
  then have "0 < len (files ?m)" by simp
  with t have r: "selected ?m < len (files ?m)" by blast
  have k: "''down'' \<in> {''up'', ''k'', ''down'', ''j''}" by simp
  with t have n: "\<bar>selected (fst (Update (NewModel None) (KeyMsg ''down''))) -
                   selected (NewModel None)\<bar> \<le> 1"
    by blast
  have l: "loading (NewModel None)" by (simp add: NewModel_def)
  with t have i: "selected (fst (Update (NewModel None) (KeyMsg ''down''))) = selected (NewModel None)"
    by blast
  from c r k n l i show ?thesis by blast
qed

end
